theory Spec2Isabelle
  imports Main
begin

section \<open>The playerPrefs record codec of \<^verbatim>\<open>playerprefs.py\<close>\<close>

text \<open>
  The module reads one line of 22 comma-separated fields into the dataclass
  \<^verbatim>\<open>PlayerPrefs\<close> (\<^verbatim>\<open>from_string\<close>, \<^verbatim>\<open>from_list\<close>) and renders it back
  (\<^verbatim>\<open>__str__\<close> over \<^verbatim>\<open>__iter__\<close>). The embedding keeps the names of the module.
  Strings are lists of characters with code points below 256, Python's unbounded integers
  are \<open>int\<close>, and every \<^verbatim>\<open>raise\<close> is a value \<open>Inl e\<close> of a sum type. The conversions
  between integers and strings raise beyond the interpreter's limit on the number of digits,
  4300 unless the interpreter is configured otherwise.
\<close>

subsection \<open>Exceptions\<close>

text \<open>
  Two exception classes can leave \<^verbatim>\<open>from_list\<close>: \<^verbatim>\<open>ValueError\<close>, raised at five places
  told apart by their message, and \<^verbatim>\<open>KeyError\<close>, raised by the subscription
  \<^verbatim>\<open>BOOL[...]\<close> with the missing key as its argument.
  \<^item> \<open>Fields\<close>: \<^verbatim>\<open>ValueError('Excpected iterable with 22 fields.')\<close> of \<^verbatim>\<open>from_list\<close>;
  \<^item> \<open>OutOfRange\<close>: \<^verbatim>\<open>ValueError('UInt7 must be between 0 and 255.')\<close> of \<^verbatim>\<open>U8.__init__\<close>;
  \<^item> \<open>Literal s\<close>: the builtin \<^verbatim>\<open>int(s)\<close>, "invalid literal for int() with base 10";
  \<^item> \<open>NotMember v c\<close>: the call \<^verbatim>\<open>c(v)\<close> of an enumeration class, "v is not a valid c";
  \<^item> \<open>DigitLimit\<close>: the builtins \<^verbatim>\<open>int(s)\<close> and \<^verbatim>\<open>str(n)\<close>, "Exceeds the limit (4300 digits)
    for integer string conversion".
\<close>

datatype reason = Fields | OutOfRange | Literal string | NotMember int string | DigitLimit

datatype error = ValueError reason | KeyError string

fun is_ValueError :: "error \<Rightarrow> bool" where
  "is_ValueError (ValueError _) = True"
| "is_ValueError (KeyError _) = False"

text \<open>Sequencing: the first exception raised ends the computation.\<close>

definition bind :: "error + 'a \<Rightarrow> ('a \<Rightarrow> error + 'b) \<Rightarrow> error + 'b" where
  "bind m f = (case m of Inl e \<Rightarrow> Inl e | Inr v \<Rightarrow> f v)"

subsection \<open>Builtins: \<^verbatim>\<open>str.split\<close>, \<^verbatim>\<open>str.join\<close>, \<^verbatim>\<open>str\<close>, \<^verbatim>\<open>int\<close>\<close>

text \<open>
  \<^verbatim>\<open>s.split(c)\<close> for a one-character separator: the pieces between the separators, so
  that a string with \<open>k\<close> separators has \<open>k + 1\<close> pieces and the empty string has one.
  \<open>acc\<close> is the piece being read, reversed.
\<close>

fun split_from :: "char \<Rightarrow> string \<Rightarrow> string \<Rightarrow> string list" where
  "split_from c acc [] = [rev acc]"
| "split_from c acc (x # xs) =
     (if x = c then rev acc # split_from c [] xs else split_from c (x # acc) xs)"

definition str_split :: "char \<Rightarrow> string \<Rightarrow> string list" where
  "str_split c s = split_from c [] s"

text \<open>\<^verbatim>\<open>c.join(xs)\<close> for a one-character separator.\<close>

fun str_join :: "char \<Rightarrow> string list \<Rightarrow> string" where
  "str_join c [] = []"
| "str_join c [x] = x"
| "str_join c (x # y # ys) = x @ c # str_join c (y # ys)"

text \<open>
  The limit on the number of digits of a conversion between an integer and a string
  (\<^verbatim>\<open>sys.get_int_max_str_digits()\<close>), at the interpreter's default.
\<close>

definition int_max_str_digits :: nat where
  "int_max_str_digits = 4300"

text \<open>
  \<^verbatim>\<open>str(n)\<close> of an integer: decimal digits, most significant first, \<open>-\<close> before a negative
  one. It raises \<^verbatim>\<open>ValueError\<close> when there are more digits than the limit; the sign is not
  counted.
\<close>

definition digit_char :: "nat \<Rightarrow> char" where
  "digit_char d = char_of (48 + d)"

fun str_nat :: "nat \<Rightarrow> string" where
  "str_nat n = (if n < 10 then [] else str_nat (n div 10)) @ [digit_char (n mod 10)]"

definition decimal :: "int \<Rightarrow> string" where
  "decimal i = (if i < 0 then CHR ''-'' # str_nat (nat (- i)) else str_nat (nat i))"

definition str_int :: "int \<Rightarrow> error + string" where
  "str_int i =
     (if int_max_str_digits < length (str_nat (nat \<bar>i\<bar>)) then Inl (ValueError DigitLimit)
      else Inr (decimal i))"

text \<open>\<^verbatim>\<open>str(b)\<close> of a boolean.\<close>

definition str_bool :: "bool \<Rightarrow> string" where
  "str_bool b = (if b then ''True'' else ''False'')"

text \<open>
  \<^verbatim>\<open>int(s)\<close> of a string, base 10: whitespace around the literal is skipped, one sign may
  come first with no space after it, then at least one digit, with single underscores allowed
  between digits. Anything else raises \<^verbatim>\<open>ValueError\<close>. Below code point 256 the
  characters skipped as whitespace are 9 to 13, 32, 133 and 160. A literal with more digits
  than the limit (leading zeros counted, sign and underscores not) raises \<^verbatim>\<open>ValueError\<close>
  too; that check comes after the scan of the digits and before the look at what follows them.
\<close>

definition is_space :: "char \<Rightarrow> bool" where
  "is_space c = (let k = (of_char c :: nat) in (9 \<le> k \<and> k \<le> 13) \<or> k = 32 \<or> k = 133 \<or> k = 160)"

definition is_digit :: "char \<Rightarrow> bool" where
  "is_digit c = (let k = (of_char c :: nat) in 48 \<le> k \<and> k \<le> 57)"

definition digit_val :: "char \<Rightarrow> nat" where
  "digit_val c = of_char c - 48"

text \<open>
  The scan of the digits: \<open>prev\<close> is the character read last, \<open>acc\<close> the value and \<open>cnt\<close>
  the number of digits so far. It stops at the first character that is neither a digit nor
  an underscore and returns the value and the number of digits with the rest of the string;
  two underscores in a row or an underscore at the end of the digits are refused.
\<close>

fun scan_digits :: "char \<Rightarrow> nat \<Rightarrow> nat \<Rightarrow> string \<Rightarrow> (nat \<times> nat \<times> string) option" where
  "scan_digits prev acc cnt [] = (if prev = CHR ''_'' then None else Some (acc, cnt, []))"
| "scan_digits prev acc cnt (c # cs) =
     (if c = CHR ''_'' then (if prev = CHR ''_'' then None else scan_digits c acc cnt cs)
      else if is_digit c then scan_digits c (10 * acc + digit_val c) (Suc cnt) cs
      else if prev = CHR ''_'' then None else Some (acc, cnt, c # cs))"

definition py_int :: "string \<Rightarrow> error + int" where
  "py_int s =
     (let t = dropWhile is_space s;
          neg = (t \<noteq> [] \<and> hd t = CHR ''-'');
          u = (if t \<noteq> [] \<and> (hd t = CHR ''-'' \<or> hd t = CHR ''+'') then tl t else t)
      in case u of
           [] \<Rightarrow> Inl (ValueError (Literal s))
         | c # cs \<Rightarrow>
             if is_digit c then
               (case scan_digits c (digit_val c) 1 cs of
                  None \<Rightarrow> Inl (ValueError (Literal s))
                | Some (n, cnt, rest) \<Rightarrow>
                    if int_max_str_digits < cnt then Inl (ValueError DigitLimit)
                    else if list_all is_space rest then Inr (if neg then - int n else int n)
                    else Inl (ValueError (Literal s)))
             else Inl (ValueError (Literal s)))"

subsection \<open>The dictionary \<^verbatim>\<open>BOOL\<close>\<close>

definition BOOL :: "string \<rightharpoonup> bool" where
  "BOOL = [''True'' \<mapsto> True, ''False'' \<mapsto> False]"

text \<open>The subscription \<^verbatim>\<open>d[k]\<close> of a dictionary raises \<^verbatim>\<open>KeyError(k)\<close> for a missing key.\<close>

definition getitem :: "(string \<rightharpoonup> 'v) \<Rightarrow> string \<Rightarrow> error + 'v" where
  "getitem d k = (case d k of None \<Rightarrow> Inl (KeyError k) | Some v \<Rightarrow> Inr v)"

subsection \<open>The class \<^verbatim>\<open>U8\<close>\<close>

text \<open>
  \<^verbatim>\<open>U8(value)\<close> first makes the integer object (\<^verbatim>\<open>int.__new__\<close> converts \<open>value\<close>), then
  runs \<^verbatim>\<open>__init__\<close>, which converts \<open>value\<close> again and checks the range. \<^verbatim>\<open>from_list\<close>
  passes the token, a string. The object made is an integer; it is modelled by its value.
\<close>

definition U8 :: "string \<Rightarrow> error + int" where
  "U8 value =
     bind (py_int value) (\<lambda>self.
     bind (py_int value) (\<lambda>v.
       if 0 \<le> v \<and> v \<le> 255 then Inr self else Inl (ValueError OutOfRange)))"

subsection \<open>The enumeration classes\<close>

text \<open>
  A member of an \<^verbatim>\<open>IntEnum\<close> class is an integer object with a name. The slots of the
  dataclass are not checked against their annotations, so a slot annotated with an
  enumeration class can hold a member or a plain integer: \<open>intobj\<close> has both.
\<close>

datatype intobj = Plain int | Member string int

fun int_value :: "intobj \<Rightarrow> int" where
  "int_value (Plain i) = i"
| "int_value (Member n v) = v"

text \<open>
  The body of a class is its list of assignments \<^verbatim>\<open>NAME = value\<close>, in the order of the
  source. Creating the class goes through the body once: a value that an earlier name already
  has makes the new name an alias of that earlier member, any other value makes a new member.
  \<open>member_map\<close> is the resulting table from every name (aliases too) to its member.
\<close>

fun add_members :: "(string \<times> intobj) list \<Rightarrow> (string \<times> int) list \<Rightarrow> (string \<times> intobj) list" where
  "add_members mm [] = mm"
| "add_members mm ((n, v) # body) =
     add_members
       (mm @ [(n, case find (\<lambda>m. int_value m = v) (map snd mm) of
                    Some m \<Rightarrow> m
                  | None \<Rightarrow> Member n v)])
       body"

definition member_map :: "(string \<times> int) list \<Rightarrow> (string \<times> intobj) list" where
  "member_map body = add_members [] body"

text \<open>\<^verbatim>\<open>cls(v)\<close>: the member with value \<open>v\<close>, or \<^verbatim>\<open>ValueError\<close> ("v is not a valid cls").\<close>

definition enum_call :: "string \<Rightarrow> (string \<times> int) list \<Rightarrow> int \<Rightarrow> error + intobj" where
  "enum_call cls body v =
     (case find (\<lambda>m. int_value m = v) (map snd (member_map body)) of
        None \<Rightarrow> Inl (ValueError (NotMember v cls))
      | Some m \<Rightarrow> Inr m)"

text \<open>\<^verbatim>\<open>cls[name]\<close>: the member a name stands for, or \<^verbatim>\<open>KeyError\<close>.\<close>

definition enum_getitem :: "(string \<times> int) list \<Rightarrow> string \<Rightarrow> error + intobj" where
  "enum_getitem body nm = getitem (map_of (member_map body)) nm"

text \<open>
  \<^verbatim>\<open>list(cls)\<close>: the members in the order of definition, each once, at the place of its
  first name.
\<close>

definition members :: "(string \<times> int) list \<Rightarrow> intobj list" where
  "members body = rev (remdups (rev (map snd (member_map body))))"

definition Control_body :: "(string \<times> int) list" where
  "Control_body = [(''MOUSE'', 0), (''MOUSE_AND_KEYBOARD'', 1)]"

definition Color_body :: "(string \<times> int) list" where
  "Color_body =
     [(''RED'', 0), (''BLUE'', 1), (''GREEN'', 2), (''PINK'', 3), (''ORANGE'', 4),
      (''YELLOW'', 5), (''BLACK'', 6), (''WHITE'', 7), (''PURPLE'', 8), (''BROWN'', 9),
      (''CYAN'', 10), (''LIME'', 11)]"

definition Hat_body :: "(string \<times> int) list" where
  "Hat_body =
     [(''NONE'', 0), (''PARTY'', 28), (''FEDORA'', 43), (''SKI'', 44),
      (''SURGICAL_MASK'', 47), (''COWBOY'', 49), (''BANANA'', 50), (''BALACLAVA'', 51),
      (''MOUSE_EARS'', 52), (''CHEESE'', 53), (''CHERRY'', 54), (''FRIED_EGG'', 55),
      (''BLACK_HAT'', 56), (''FLAMINGO'', 57), (''FLOWER'', 58), (''ROMAN'', 59),
      (''LEAVES'', 60), (''CROWN'', 30), (''EYEBROWS'', 31), (''HALO'', 32),
      (''POINTED_HAT'', 33), (''DIVING_GOGGLES'', 36), (''STICKMAN'', 37),
      (''TELESCOPE_EYE'', 40), (''TOILET_PAPER'', 41), (''LEPRECHAUN'', 42),
      (''FLAT_CAP'', 34), (''PLUNGER'', 35), (''TOPEE'', 38), (''SHERRIFF'', 39),
      (''ANTENNA'', 76), (''ASTRONAUT'', 1), (''BALLOON'', 77), (''BASEBALL_CAP'', 2),
      (''NEST'', 78), (''NINJA_HEADBAND'', 79), (''ALIEN'', 3), (''BROWN_HAT'', 4),
      (''PILOT'', 5), (''WET_FLOOR_SIGN'', 80), (''CHEF'', 81), (''BLUE_HAT'', 82),
      (''BANDANA'', 83), (''DOUBLE_TOP_HAT'', 6), (''STICKY_NOTE'', 84), (''FEZ'', 85),
      (''FLOWER_POT'', 7), (''PILOT_GREEN'', 86), (''NIGHT_VISION'', 8), (''ELVIS'', 87),
      (''BUILDING_SITE'', 9), (''UNKNOWN'', 88), (''SOLDIER'', 89), (''OFFICER'', 10),
      (''MINIME'', 90), (''NINJA_MASK'', 90), (''PAPER'', 11), (''CLOWN'', 12),
      (''POLICE'', 13), (''HORNS'', 92), (''BOBBLE'', 93), (''SURGEON'', 14),
      (''TOPHAT'', 15), (''TOWEL'', 16), (''BEARSKIN'', 17), (''VIKING'', 18),
      (''SECURITY'', 19), (''WHITE_TOPHAT'', 29)]"

definition Skin_body :: "(string \<times> int) list" where
  "Skin_body =
     [(''NONE'', 0), (''ASTRONAUT'', 1), (''PILOT'', 2), (''BLUEY'', 3), (''SOLDIER'', 4),
      (''POLICE'', 5), (''LAB_COAT'', 6), (''SUIT_BLACK'', 7), (''SUIT_WHITE'', 8),
      (''SECURITY'', 9)]"

definition Pet_body :: "(string \<times> int) list" where
  "Pet_body = [(''NONE'', 0)]"

definition Language_body :: "(string \<times> int) list" where
  "Language_body =
     [(''ENGLISH'', 0), (''SPANISH'', 1), (''PORTOGUESE'', 2), (''KOREAN'', 3),
      (''RUSSIAN'', 4)]"

definition Control :: "int \<Rightarrow> error + intobj" where
  "Control = enum_call ''Control'' Control_body"

definition Color :: "int \<Rightarrow> error + intobj" where
  "Color = enum_call ''Color'' Color_body"

definition Hat :: "int \<Rightarrow> error + intobj" where
  "Hat = enum_call ''Hat'' Hat_body"

definition Skin :: "int \<Rightarrow> error + intobj" where
  "Skin = enum_call ''Skin'' Skin_body"

definition Pet :: "int \<Rightarrow> error + intobj" where
  "Pet = enum_call ''Pet'' Pet_body"

definition Language :: "int \<Rightarrow> error + intobj" where
  "Language = enum_call ''Language'' Language_body"

subsection \<open>The dataclass \<^verbatim>\<open>PlayerPrefs\<close>\<close>

record PlayerPrefs =
  name :: string
  control :: intobj
  color :: intobj
  unknown3 :: int
  unknown4 :: bool
  unknown5 :: bool
  unknown6 :: bool
  unknown7 :: int
  unknown8 :: bool
  unknown9 :: bool
  hat :: intobj
  sfx :: int
  music :: int
  unknown13 :: int
  unknown14 :: int
  skin :: intobj
  pet :: intobj
  censor_chat :: bool
  language :: intobj
  vsync :: bool
  unknown20 :: int
  unknown21 :: int

text \<open>
  The generated \<^verbatim>\<open>__init__\<close> stores its 22 arguments, in order; the class has no
  \<^verbatim>\<open>__post_init__\<close> and the annotations are not enforced, so it raises nothing.
\<close>

definition PlayerPrefs_init ::
  "string \<Rightarrow> intobj \<Rightarrow> intobj \<Rightarrow> int \<Rightarrow> bool \<Rightarrow> bool \<Rightarrow> bool \<Rightarrow> int \<Rightarrow> bool \<Rightarrow> bool \<Rightarrow> intobj \<Rightarrow>
   int \<Rightarrow> int \<Rightarrow> int \<Rightarrow> int \<Rightarrow> intobj \<Rightarrow> intobj \<Rightarrow> bool \<Rightarrow> intobj \<Rightarrow> bool \<Rightarrow> int \<Rightarrow> int \<Rightarrow>
   error + PlayerPrefs" where
  "PlayerPrefs_init a0 a1 a2 a3 a4 a5 a6 a7 a8 a9 a10 a11 a12 a13 a14 a15 a16 a17 a18 a19 a20 a21 =
     Inr \<lparr>name = a0, control = a1, color = a2, unknown3 = a3, unknown4 = a4, unknown5 = a5,
          unknown6 = a6, unknown7 = a7, unknown8 = a8, unknown9 = a9, hat = a10, sfx = a11,
          music = a12, unknown13 = a13, unknown14 = a14, skin = a15, pet = a16,
          censor_chat = a17, language = a18, vsync = a19, unknown20 = a20, unknown21 = a21\<rparr>"

text \<open>\<^verbatim>\<open>__iter__\<close> yields the 22 fields in order; \<open>obj\<close> is the type of what it yields.\<close>

datatype obj = Str string | Num intobj | Bool bool

definition iter :: "PlayerPrefs \<Rightarrow> obj list" where
  "iter self =
     [Str (name self), Num (control self), Num (color self), Num (Plain (unknown3 self)),
      Bool (unknown4 self), Bool (unknown5 self), Bool (unknown6 self),
      Num (Plain (unknown7 self)), Bool (unknown8 self), Bool (unknown9 self), Num (hat self),
      Num (Plain (sfx self)), Num (Plain (music self)), Num (Plain (unknown13 self)),
      Num (Plain (unknown14 self)), Num (skin self), Num (pet self), Bool (censor_chat self),
      Num (language self), Bool (vsync self), Num (Plain (unknown20 self)),
      Num (Plain (unknown21 self))]"

text \<open>
  \<^verbatim>\<open>str(x)\<close>: a string is itself, an integer its decimal form, a boolean its literal; every
  enumeration class overrides \<^verbatim>\<open>__str__\<close> to \<^verbatim>\<open>str(self.value)\<close>.
\<close>

fun str :: "obj \<Rightarrow> error + string" where
  "str (Str s) = Inr s"
| "str (Num (Plain i)) = str_int i"
| "str (Num (Member n v)) = str_int v"
| "str (Bool b) = Inr (str_bool b)"

text \<open>
  \<^verbatim>\<open>map(str, self)\<close> as \<^verbatim>\<open>join\<close> consumes it: the strings of the items in order, or the
  exception of the first item whose \<^verbatim>\<open>str\<close> raises.
\<close>

fun map_str :: "obj list \<Rightarrow> error + string list" where
  "map_str [] = Inr []"
| "map_str (x # xs) = bind (str x) (\<lambda>s. bind (map_str xs) (\<lambda>ss. Inr (s # ss)))"

definition PlayerPrefs_str :: "PlayerPrefs \<Rightarrow> error + string" where
  "PlayerPrefs_str self = bind (map_str (iter self)) (\<lambda>ss. Inr (str_join CHR '','' ss))"

text \<open>
  \<^verbatim>\<open>from_list\<close>: the length check, then the arguments of \<^verbatim>\<open>cls(...)\<close> from left to right,
  each conversion raising as soon as it fails; the indices are in range after the check.
\<close>

definition from_list :: "string list \<Rightarrow> error + PlayerPrefs" where
  "from_list lst =
     (if length lst \<noteq> 22 then Inl (ValueError Fields)
      else
        bind (bind (py_int (lst ! 1)) Control) (\<lambda>a1.
        bind (bind (py_int (lst ! 2)) Color) (\<lambda>a2.
        bind (py_int (lst ! 3)) (\<lambda>a3.
        bind (getitem BOOL (lst ! 4)) (\<lambda>a4.
        bind (getitem BOOL (lst ! 5)) (\<lambda>a5.
        bind (getitem BOOL (lst ! 6)) (\<lambda>a6.
        bind (py_int (lst ! 7)) (\<lambda>a7.
        bind (getitem BOOL (lst ! 8)) (\<lambda>a8.
        bind (getitem BOOL (lst ! 9)) (\<lambda>a9.
        bind (bind (py_int (lst ! 10)) Hat) (\<lambda>a10.
        bind (U8 (lst ! 11)) (\<lambda>a11.
        bind (U8 (lst ! 12)) (\<lambda>a12.
        bind (py_int (lst ! 13)) (\<lambda>a13.
        bind (py_int (lst ! 14)) (\<lambda>a14.
        bind (bind (py_int (lst ! 15)) Skin) (\<lambda>a15.
        bind (bind (py_int (lst ! 16)) Pet) (\<lambda>a16.
        bind (getitem BOOL (lst ! 17)) (\<lambda>a17.
        bind (bind (py_int (lst ! 18)) Language) (\<lambda>a18.
        bind (getitem BOOL (lst ! 19)) (\<lambda>a19.
        bind (py_int (lst ! 20)) (\<lambda>a20.
        bind (py_int (lst ! 21)) (\<lambda>a21.
        PlayerPrefs_init (lst ! 0) a1 a2 a3 a4 a5 a6 a7 a8 a9 a10 a11 a12 a13 a14 a15 a16
          a17 a18 a19 a20 a21))))))))))))))))))))))"

definition from_string :: "string \<Rightarrow> error + PlayerPrefs" where
  "from_string string = from_list (str_split CHR '','' string)"

text \<open>
  A record is valid when each slot annotated with an enumeration class holds a member of that
  class and \<open>sfx\<close> and \<open>music\<close> lie between 0 and 255.
\<close>

definition valid :: "PlayerPrefs \<Rightarrow> bool" where
  "valid r \<longleftrightarrow>
     control r \<in> set (members Control_body) \<and> color r \<in> set (members Color_body) \<and>
     hat r \<in> set (members Hat_body) \<and> skin r \<in> set (members Skin_body) \<and>
     pet r \<in> set (members Pet_body) \<and> language r \<in> set (members Language_body) \<and>
     0 \<le> sfx r \<and> sfx r \<le> 255 \<and> 0 \<le> music r \<and> music r \<le> 255"

text \<open>
  The generated \<^verbatim>\<open>__eq__\<close> compares the tuples of the fields with \<^verbatim>\<open>==\<close>; integers and
  members of \<^verbatim>\<open>IntEnum\<close> classes are equal when their values are.
\<close>

definition PlayerPrefs_eq :: "PlayerPrefs \<Rightarrow> PlayerPrefs \<Rightarrow> bool" where
  "PlayerPrefs_eq self other \<longleftrightarrow>
     name self = name other \<and> int_value (control self) = int_value (control other) \<and>
     int_value (color self) = int_value (color other) \<and> unknown3 self = unknown3 other \<and>
     unknown4 self = unknown4 other \<and> unknown5 self = unknown5 other \<and>
     unknown6 self = unknown6 other \<and> unknown7 self = unknown7 other \<and>
     unknown8 self = unknown8 other \<and> unknown9 self = unknown9 other \<and>
     int_value (hat self) = int_value (hat other) \<and> sfx self = sfx other \<and>
     music self = music other \<and> unknown13 self = unknown13 other \<and>
     unknown14 self = unknown14 other \<and> int_value (skin self) = int_value (skin other) \<and>
     int_value (pet self) = int_value (pet other) \<and> censor_chat self = censor_chat other \<and>
     int_value (language self) = int_value (language other) \<and> vsync self = vsync other \<and>
     unknown20 self = unknown20 other \<and> unknown21 self = unknown21 other"

text \<open>
  The domains of the fields: each slot annotated with an enumeration class holds an integer
  (a member or not) whose value is assigned in the body of that class, and \<open>sfx\<close> and
  \<open>music\<close> lie between 0 and 255.
\<close>

definition in_domain :: "PlayerPrefs \<Rightarrow> bool" where
  "in_domain r \<longleftrightarrow>
     int_value (control r) \<in> snd ` set Control_body \<and>
     int_value (color r) \<in> snd ` set Color_body \<and>
     int_value (hat r) \<in> snd ` set Hat_body \<and>
     int_value (skin r) \<in> snd ` set Skin_body \<and>
     int_value (pet r) \<in> snd ` set Pet_body \<and>
     int_value (language r) \<in> snd ` set Language_body \<and>
     0 \<le> sfx r \<and> sfx r \<le> 255 \<and> 0 \<le> music r \<and> music r \<le> 255"

text \<open>
  The fields annotated \<^verbatim>\<open>int\<close> are within the limit of the conversions when none has more
  digits than the limit.
\<close>

definition digits_ok :: "int \<Rightarrow> bool" where
  "digits_ok i \<longleftrightarrow> length (str_nat (nat \<bar>i\<bar>)) \<le> int_max_str_digits"

definition within_digit_limit :: "PlayerPrefs \<Rightarrow> bool" where
  "within_digit_limit r \<longleftrightarrow>
     digits_ok (unknown3 r) \<and> digits_ok (unknown7 r) \<and> digits_ok (unknown13 r) \<and>
     digits_ok (unknown14 r) \<and> digits_ok (unknown20 r) \<and> digits_ok (unknown21 r)"

section \<open>Auxiliary facts\<close>

subsection \<open>Sequencing\<close>

lemma bind_Inl [simp]: "bind (Inl e) f = Inl e"
  by (simp add: bind_def)

lemma bind_Inr [simp]: "bind (Inr v) f = f v"
  by (simp add: bind_def)

lemma bind_eq_Inr_iff: "bind m f = Inr r \<longleftrightarrow> (\<exists>v. m = Inr v \<and> f v = Inr r)"
  by (cases m) simp_all

lemma bind_eq_Inl_iff: "bind m f = Inl e \<longleftrightarrow> m = Inl e \<or> (\<exists>v. m = Inr v \<and> f v = Inl e)"
  by (cases m) simp_all

subsection \<open>Splitting and joining\<close>

lemma split_from_no_sep: "c \<notin> set p \<Longrightarrow> split_from c acc p = [rev acc @ p]"
  by (induction p arbitrary: acc) auto

lemma split_from_sep:
  "c \<notin> set p \<Longrightarrow> split_from c acc (p @ c # rest) = (rev acc @ p) # split_from c [] rest"
  by (induction p arbitrary: acc) auto

lemma str_split_join:
  "xs \<noteq> [] \<Longrightarrow> \<forall>x \<in> set xs. c \<notin> set x \<Longrightarrow> str_split c (str_join c xs) = xs"
proof (induction c xs rule: str_join.induct)
  case (1 c)
  then show ?case by simp
next
  case (2 c x)
  then show ?case by (simp add: str_split_def split_from_no_sep)
next
  case (3 c x y ys)
  then show ?case by (simp add: str_split_def split_from_sep)
qed

subsection \<open>Decimal digits: \<^verbatim>\<open>int(str(n))\<close> is \<open>n\<close> within the limit\<close>

lemma is_digit_not_special:
  "is_digit c \<Longrightarrow>
   c \<noteq> CHR '','' \<and> c \<noteq> CHR ''_'' \<and> c \<noteq> CHR ''-'' \<and> c \<noteq> CHR ''+'' \<and> \<not> is_space c"
  by (auto simp: is_digit_def is_space_def Let_def)

lemma is_digit_digit_char: "d < 10 \<Longrightarrow> is_digit (digit_char d)"
  by (simp add: is_digit_def digit_char_def)

lemma digit_val_digit_char: "d < 10 \<Longrightarrow> digit_val (digit_char d) = d"
  by (simp add: digit_val_def digit_char_def)

declare str_nat.simps [simp del]

lemma str_nat_digits: "c \<in> set (str_nat n) \<Longrightarrow> is_digit c"
proof (induction n arbitrary: c rule: str_nat.induct)
  case (1 n)
  from "1.prems" show ?case
    by (subst (asm) str_nat.simps) (auto simp: is_digit_digit_char dest: "1.IH" split: if_splits)
qed

lemma str_nat_not_Nil: "str_nat n \<noteq> []"
  by (subst str_nat.simps) simp

lemma length_str_nat_le: "n < 10 ^ k \<Longrightarrow> 0 < k \<Longrightarrow> length (str_nat n) \<le> k"
proof (induction k arbitrary: n)
  case 0
  then show ?case by simp
next
  case (Suc k)
  show ?case
  proof (cases "n < 10")
    case True
    then show ?thesis by (subst str_nat.simps) simp
  next
    case False
    from Suc.prems(1) have "n < 10 * 10 ^ k" by simp
    then have d: "n div 10 < 10 ^ k" by (simp add: less_mult_imp_div_less mult.commute)
    have "0 < k"
    proof (rule ccontr)
      assume "\<not> 0 < k"
      then have "k = 0" by simp
      with Suc.prems(1) False show False by simp
    qed
    with d have "length (str_nat (n div 10)) \<le> k" by (rule Suc.IH)
    with False show ?thesis by (subst str_nat.simps) simp
  qed
qed

lemma length_str_nat_gt: "10 ^ k \<le> n \<Longrightarrow> k < length (str_nat n)"
proof (induction k arbitrary: n)
  case 0
  then show ?case using str_nat_not_Nil [of n] by (cases "str_nat n") auto
next
  case (Suc k)
  from Suc.prems have p: "10 * 10 ^ k \<le> n" by simp
  have "(1::nat) \<le> 10 ^ k" by simp
  then have "(10::nat) * 1 \<le> 10 * 10 ^ k" by (rule mult_le_mono2)
  with p have "10 \<le> n" by linarith
  then have n: "\<not> n < 10" by simp
  note p
  then have "10 ^ k \<le> n div 10" by (simp add: less_eq_div_iff_mult_less_eq mult.commute)
  then have "k < length (str_nat (n div 10))" by (rule Suc.IH)
  with n show ?case by (subst str_nat.simps) simp
qed

lemma nat_abs_ge: "10 ^ k \<le> \<bar>i\<bar> \<Longrightarrow> (10::nat) ^ k \<le> nat \<bar>i\<bar>"
proof -
  assume a: "10 ^ k \<le> \<bar>i\<bar>"
  have "int (10 ^ k) = 10 ^ k" by simp
  with a have "int (10 ^ k) \<le> \<bar>i\<bar>" by simp
  then show ?thesis by (simp only: nat_le_iff [symmetric] nat_int)
qed

lemma scan_digits_all:
  "\<forall>c \<in> set ds. is_digit c \<Longrightarrow> prev \<noteq> CHR ''_'' \<Longrightarrow>
   scan_digits prev acc cnt ds =
     Some (foldl (\<lambda>a c. 10 * a + digit_val c) acc ds, cnt + length ds, [])"
proof (induction ds arbitrary: prev acc cnt)
  case Nil
  then show ?case by simp
next
  case (Cons d ds)
  then have "is_digit d" by simp
  then have "d \<noteq> CHR ''_''" by (simp add: is_digit_not_special)
  with Cons \<open>is_digit d\<close> show ?case by simp
qed

lemma foldl_str_nat: "foldl (\<lambda>a c. 10 * a + digit_val c) 0 (str_nat n) = n"
proof (induction n rule: str_nat.induct)
  case (1 n)
  show ?case
  proof (cases "n < 10")
    case True
    then show ?thesis by (subst str_nat.simps) (simp add: digit_val_digit_char)
  next
    case False
    with "1.IH" show ?thesis by (subst str_nat.simps) (simp add: digit_val_digit_char)
  qed
qed

lemma scan_str_nat:
  assumes "str_nat n = c # cs"
  shows "is_digit c"
    and "scan_digits c (digit_val c) 1 cs = Some (n, length (str_nat n), [])"
proof -
  have dig: "\<forall>x \<in> set (c # cs). is_digit x"
    using str_nat_digits [of _ n] by (simp add: assms)
  then show c: "is_digit c" by simp
  have "scan_digits c (digit_val c) 1 cs =
      Some (foldl (\<lambda>a c. 10 * a + digit_val c) 0 (c # cs), length (c # cs), [])"
    using dig c by (simp add: scan_digits_all is_digit_not_special)
  then show "scan_digits c (digit_val c) 1 cs = Some (n, length (str_nat n), [])"
    using foldl_str_nat [of n] by (simp only: assms)
qed

lemma py_int_decimal:
  assumes "digits_ok i"
  shows "py_int (decimal i) = Inr i"
proof -
  obtain c cs where cs: "str_nat (nat \<bar>i\<bar>) = c # cs"
    using str_nat_not_Nil [of "nat \<bar>i\<bar>"] by (cases "str_nat (nat \<bar>i\<bar>)") auto
  note sc = scan_str_nat [OF cs]
  from assms have lim: "\<not> int_max_str_digits < length (str_nat (nat \<bar>i\<bar>))"
    by (simp add: digits_ok_def)
  show ?thesis
  proof (cases "i < 0")
    case False
    then have "decimal i = c # cs" using cs by (simp add: decimal_def)
    with sc lim False show ?thesis
      by (simp add: py_int_def Let_def is_digit_not_special)
  next
    case True
    then have "decimal i = CHR ''-'' # c # cs" using cs by (simp add: decimal_def)
    moreover have "\<not> is_space CHR ''-''" by (simp add: is_space_def)
    ultimately show ?thesis using sc lim True
      by (simp add: py_int_def Let_def)
  qed
qed

lemma str_int_decimal: "digits_ok i \<Longrightarrow> str_int i = Inr (decimal i)"
  by (simp add: str_int_def digits_ok_def)

lemma str_int_over_limit:
  "10 ^ int_max_str_digits \<le> \<bar>i\<bar> \<Longrightarrow> str_int i = Inl (ValueError DigitLimit)"
proof -
  assume "10 ^ int_max_str_digits \<le> \<bar>i\<bar>"
  then have "(10::nat) ^ int_max_str_digits \<le> nat \<bar>i\<bar>" by (rule nat_abs_ge)
  then have "int_max_str_digits < length (str_nat (nat \<bar>i\<bar>))" by (rule length_str_nat_gt)
  then show ?thesis by (simp only: str_int_def if_True)
qed

lemma digits_ok_small: "\<bar>i\<bar> < 1000 \<Longrightarrow> digits_ok i"
proof -
  assume "\<bar>i\<bar> < 1000"
  then have "nat \<bar>i\<bar> < 10 ^ 3" by simp
  then have "length (str_nat (nat \<bar>i\<bar>)) \<le> 3" by (rule length_str_nat_le) simp
  then show ?thesis by (simp add: digits_ok_def int_max_str_digits_def)
qed

lemma decimal_no_comma: "CHR '','' \<notin> set (decimal i)"
  using str_nat_digits is_digit_not_special by (auto simp: decimal_def)

lemma str_bool_no_comma: "CHR '','' \<notin> set (str_bool b)"
  by (simp add: str_bool_def)

lemma BOOL_str_bool: "getitem BOOL (str_bool b) = Inr b"
  by (simp add: getitem_def BOOL_def str_bool_def)

lemma U8_decimal: "0 \<le> v \<Longrightarrow> v \<le> 255 \<Longrightarrow> U8 (decimal v) = Inr v"
  by (simp add: U8_def py_int_decimal digits_ok_small)

subsection \<open>Enumeration classes\<close>

lemma find_append:
  "find P (xs @ ys) = (case find P xs of None \<Rightarrow> find P ys | Some x \<Rightarrow> Some x)"
  by (induction xs) auto

lemma find_SomeD: "find P xs = Some x \<Longrightarrow> x \<in> set xs \<and> P x"
  by (induction xs) (auto split: if_splits)

lemma add_members_canonical:
  "\<forall>m \<in> snd ` set mm. find (\<lambda>x. int_value x = int_value m) (map snd mm) = Some m \<Longrightarrow>
   m \<in> snd ` set (add_members mm body) \<Longrightarrow>
   find (\<lambda>x. int_value x = int_value m) (map snd (add_members mm body)) = Some m"
proof (induction mm body arbitrary: m rule: add_members.induct)
  case (1 mm)
  then show ?case by auto
next
  case (2 mm n v body)
  let ?new = "case find (\<lambda>m. int_value m = v) (map snd mm) of Some m \<Rightarrow> m | None \<Rightarrow> Member n v"
  have "\<forall>m \<in> snd ` set (mm @ [(n, ?new)]).
          find (\<lambda>x. int_value x = int_value m) (map snd (mm @ [(n, ?new)])) = Some m"
  proof
    fix k assume "k \<in> snd ` set (mm @ [(n, ?new)])"
    then consider "k \<in> snd ` set mm" | "k = ?new" by auto
    then show "find (\<lambda>x. int_value x = int_value k) (map snd (mm @ [(n, ?new)])) = Some k"
    proof cases
      case 1
      with "2.prems"(1) have "find (\<lambda>x. int_value x = int_value k) (map snd mm) = Some k"
        by blast
      then show ?thesis by (simp add: find_append)
    next
      case 2
      show ?thesis
      proof (cases "find (\<lambda>m. int_value m = v) (map snd mm)")
        case None
        with 2 show ?thesis by (simp add: find_append)
      next
        case (Some a)
        with 2 have "k = a" by simp
        moreover from Some have "int_value a = v" by (auto dest: find_SomeD)
        ultimately show ?thesis using Some by (simp add: find_append)
      qed
    qed
  qed
  with "2.IH" "2.prems"(2) show ?case by simp
qed

lemma add_members_values:
  "int_value ` snd ` set (add_members mm body) = int_value ` snd ` set mm \<union> snd ` set body"
proof (induction mm body rule: add_members.induct)
  case (1 mm)
  then show ?case by simp
next
  case (2 mm n v body)
  have "int_value (case find (\<lambda>m. int_value m = v) (map snd mm) of Some m \<Rightarrow> m | None \<Rightarrow> Member n v) = v"
    by (auto split: option.splits dest: find_SomeD)
  with "2.IH" show ?case by (auto simp: image_Un)
qed

lemma enum_call_member:
  "m \<in> set (members body) \<Longrightarrow> enum_call cls body (int_value m) = Inr m"
  using add_members_canonical [of "[]" m body]
  by (simp add: members_def member_map_def enum_call_def)

lemma enum_call_InrD:
  "enum_call cls body v = Inr m \<Longrightarrow> m \<in> set (members body) \<and> int_value m = v"
  by (auto simp: enum_call_def members_def split: option.splits dest: find_SomeD)

lemma values_members: "int_value ` set (members body) = snd ` set body"
  using add_members_values [of "[]" body] by (simp add: members_def member_map_def)


lemma enum_call_defined:
  assumes "int_value x \<in> snd ` set body"
  obtains m where "enum_call cls body (int_value x) = Inr m"
    and "int_value m = int_value x" and "x \<in> set (members body) \<Longrightarrow> m = x"
proof -
  from assms obtain m where m: "m \<in> set (members body)" "int_value m = int_value x"
    unfolding values_members [symmetric] by auto
  then have c: "enum_call cls body (int_value x) = Inr m"
    using enum_call_member [of m body cls] by simp
  moreover have "m = x" if "x \<in> set (members body)"
    using enum_call_member [OF that, of cls] c by simp
  ultimately show ?thesis using m(2) that by blast
qed

subsection \<open>The steps of \<^verbatim>\<open>from_list\<close>\<close>

lemma from_list_Inr_iff:
  "from_list lst = Inr r \<longleftrightarrow>
     length lst = 22 \<and> name r = lst ! 0 \<and>
     bind (py_int (lst ! 1)) Control = Inr (control r) \<and>
     bind (py_int (lst ! 2)) Color = Inr (color r) \<and>
     py_int (lst ! 3) = Inr (unknown3 r) \<and>
     getitem BOOL (lst ! 4) = Inr (unknown4 r) \<and>
     getitem BOOL (lst ! 5) = Inr (unknown5 r) \<and>
     getitem BOOL (lst ! 6) = Inr (unknown6 r) \<and>
     py_int (lst ! 7) = Inr (unknown7 r) \<and>
     getitem BOOL (lst ! 8) = Inr (unknown8 r) \<and>
     getitem BOOL (lst ! 9) = Inr (unknown9 r) \<and>
     bind (py_int (lst ! 10)) Hat = Inr (hat r) \<and>
     U8 (lst ! 11) = Inr (sfx r) \<and>
     U8 (lst ! 12) = Inr (music r) \<and>
     py_int (lst ! 13) = Inr (unknown13 r) \<and>
     py_int (lst ! 14) = Inr (unknown14 r) \<and>
     bind (py_int (lst ! 15)) Skin = Inr (skin r) \<and>
     bind (py_int (lst ! 16)) Pet = Inr (pet r) \<and>
     getitem BOOL (lst ! 17) = Inr (censor_chat r) \<and>
     bind (py_int (lst ! 18)) Language = Inr (language r) \<and>
     getitem BOOL (lst ! 19) = Inr (vsync r) \<and>
     py_int (lst ! 20) = Inr (unknown20 r) \<and>
     py_int (lst ! 21) = Inr (unknown21 r)"
  (is "?lhs \<longleftrightarrow> ?rhs")
proof
  assume ?lhs
  then show ?rhs
    by (auto simp: from_list_def PlayerPrefs_init_def bind_eq_Inr_iff split: if_splits)
next
  assume ?rhs
  then show ?lhs
    by (simp add: from_list_def PlayerPrefs_init_def)
qed

lemma from_list_wrong_length: "length lst \<noteq> 22 \<Longrightarrow> from_list lst = Inl (ValueError Fields)"
  by (simp add: from_list_def)

lemma py_int_Inl: "py_int s = Inl e \<Longrightarrow> is_ValueError e"
  by (auto simp: py_int_def Let_def split: list.splits option.splits if_splits)

lemma enum_call_Inl: "enum_call cls body v = Inl e \<Longrightarrow> is_ValueError e"
  by (auto simp: enum_call_def split: option.splits)

lemma U8_Inl: "U8 s = Inl e \<Longrightarrow> is_ValueError e"
  by (auto simp: U8_def bind_eq_Inl_iff dest: py_int_Inl split: if_splits)

lemma getitem_BOOL_Inl:
  "getitem BOOL k = Inl e \<longleftrightarrow> e = KeyError k \<and> k \<noteq> ''True'' \<and> k \<noteq> ''False''"
  by (auto simp: getitem_def BOOL_def)

lemma bind_InlE:
  assumes "bind m f = Inl e"
  obtains "m = Inl e" | v where "f v = Inl e"
  using assms by (cases m) auto

lemma BOOL_KeyError:
  "getitem BOOL (lst ! j) = Inl e \<Longrightarrow> j \<in> {4, 5, 6, 8, 9, 17, 19} \<Longrightarrow>
   \<exists>j \<in> {4, 5, 6, 8, 9, 17, 19::nat}.
      lst ! j \<noteq> ''True'' \<and> lst ! j \<noteq> ''False'' \<and> e = KeyError (lst ! j)"
  unfolding getitem_BOOL_Inl by (intro bexI [of _ j]) simp_all

lemma from_list_Inl:
  assumes "from_list lst = Inl e" and "\<not> is_ValueError e"
  shows "\<exists>j \<in> {4, 5, 6, 8, 9, 17, 19::nat}.
           lst ! j \<noteq> ''True'' \<and> lst ! j \<noteq> ''False'' \<and> e = KeyError (lst ! j)"
proof -
  have len: "length lst = 22"
    using assms from_list_wrong_length [of lst] by (cases "length lst = 22") auto
  from assms(1) assms(2) show ?thesis
    unfolding from_list_def Control_def Color_def Hat_def Skin_def Pet_def Language_def
    apply (simp only: len if_False simp_thms)
    apply (elim bind_InlE)
    apply ((erule BOOL_KeyError, simp) | (drule py_int_Inl enum_call_Inl U8_Inl, simp)
           | simp add: PlayerPrefs_init_def)+
    done
qed

lemma no_Inr_is_Inl: "(\<And>r. x \<noteq> Inr r) \<Longrightarrow> \<exists>e. x = Inl e"
  by (cases x) auto

lemma enum_field_InrD:
  "bind (py_int s) (enum_call cls body) = Inr m \<Longrightarrow> m \<in> set (members body)"
  by (auto simp: bind_eq_Inr_iff dest: enum_call_InrD)

lemma U8_InrD: "U8 s = Inr v \<Longrightarrow> py_int s = Inr v \<and> 0 \<le> v \<and> v \<le> 255"
  by (auto simp: U8_def bind_eq_Inr_iff split: if_splits)

lemma from_list_valid: "from_list lst = Inr r \<Longrightarrow> valid r"
  unfolding from_list_Inr_iff valid_def Control_def Color_def Hat_def Skin_def Pet_def
    Language_def
  by (auto dest: enum_field_InrD U8_InrD)

lemma getitem_BOOL_bad:
  "k \<noteq> ''True'' \<Longrightarrow> k \<noteq> ''False'' \<Longrightarrow> getitem BOOL k = Inl (KeyError k)"
  by (simp add: getitem_def BOOL_def)

lemma from_list_bool_KeyError:
  assumes ok: "from_list (lst[i := ''True'']) = Inr r"
    and i: "i \<in> {4, 5, 6, 8, 9, 17, 19}"
    and bad: "lst ! i \<noteq> ''True''" "lst ! i \<noteq> ''False''"
  shows "from_list lst = Inl (KeyError (lst ! i))"
proof -
  note conv = ok [unfolded from_list_Inr_iff]
  from conv have len: "length lst = 22" by simp
  note b = getitem_BOOL_bad [OF bad]
  from i consider "i = 4" | "i = 5" | "i = 6" | "i = 8" | "i = 9" | "i = 17" | "i = 19"
    by auto
  then show ?thesis
  proof cases
    case 1 with conv b show ?thesis by (simp add: from_list_def)
  next
    case 2 with conv b show ?thesis by (simp add: from_list_def)
  next
    case 3 with conv b show ?thesis by (simp add: from_list_def)
  next
    case 4 with conv b show ?thesis by (simp add: from_list_def)
  next
    case 5 with conv b show ?thesis by (simp add: from_list_def)
  next
    case 6 with conv b show ?thesis by (simp add: from_list_def)
  next
    case 7 with conv b show ?thesis by (simp add: from_list_def)
  qed
qed

subsection \<open>Rendering a record\<close>

lemma str_Num: "str (Num m) = str_int (int_value m)"
  by (cases m) simp_all

lemma codes_digits_ok:
  "v \<in> snd ` set Control_body \<Longrightarrow> digits_ok v"
  "v \<in> snd ` set Color_body \<Longrightarrow> digits_ok v"
  "v \<in> snd ` set Hat_body \<Longrightarrow> digits_ok v"
  "v \<in> snd ` set Skin_body \<Longrightarrow> digits_ok v"
  "v \<in> snd ` set Pet_body \<Longrightarrow> digits_ok v"
  "v \<in> snd ` set Language_body \<Longrightarrow> digits_ok v"
  by (rule digits_ok_small, auto simp: Control_body_def Color_body_def Hat_body_def
      Skin_body_def Pet_body_def Language_body_def)+

lemma enum_field_defined:
  assumes "int_value x \<in> snd ` set body" and "digits_ok (int_value x)"
  shows "\<exists>m. bind (py_int (decimal (int_value x))) (enum_call cls body) = Inr m \<and>
             int_value m = int_value x \<and> (x \<in> set (members body) \<longrightarrow> m = x)"
proof -
  from enum_call_defined [OF assms(1), of cls] obtain m
    where "enum_call cls body (int_value x) = Inr m" and "int_value m = int_value x"
      and "x \<in> set (members body) \<Longrightarrow> m = x"
    by blast
  then show ?thesis by (auto simp: py_int_decimal assms(2))
qed

section \<open>The claims\<close>

text \<open>
  Claim C1 (round trip), as amended. For every record \<open>r\<close> whose fields lie in their domains
  (enumeration fields hold defined codes, \<open>sfx\<close> and \<open>music\<close> lie in 0..255), whose integer
  fields have no more digits than the interpreter's limit on conversions between integers and
  strings (4300), and whose name has no comma, encoding \<open>r\<close> succeeds and decoding the result
  succeeds with a record equal to \<open>r\<close> field for field; it is \<open>r\<close> itself when the
  enumeration fields of \<open>r\<close> hold members.
\<close>

theorem roundtrip:
  assumes "in_domain r" and "within_digit_limit r" and "CHR '','' \<notin> set (name r)"
  shows "\<exists>r'. bind (PlayerPrefs_str r) from_string = Inr r' \<and> PlayerPrefs_eq r' r \<and>
              (valid r \<longrightarrow> r' = r)"
proof -
  note d = assms(1) [unfolded in_domain_def]
  note w = assms(2) [unfolded within_digit_limit_def]
  from d have c: "int_value (control r) \<in> snd ` set Control_body"
    "int_value (color r) \<in> snd ` set Color_body" "int_value (hat r) \<in> snd ` set Hat_body"
    "int_value (skin r) \<in> snd ` set Skin_body" "int_value (pet r) \<in> snd ` set Pet_body"
    "int_value (language r) \<in> snd ` set Language_body"
    by simp_all
  note k = codes_digits_ok(1) [OF c(1)] codes_digits_ok(2) [OF c(2)] codes_digits_ok(3) [OF c(3)]
    codes_digits_ok(4) [OF c(4)] codes_digits_ok(5) [OF c(5)] codes_digits_ok(6) [OF c(6)]
  from d have u: "digits_ok (sfx r)" "digits_ok (music r)"
    by (auto intro: digits_ok_small)
  from enum_field_defined [OF c(1) k(1), of "''Control''"]
  obtain m1 where m1: "bind (py_int (decimal (int_value (control r)))) Control = Inr m1"
    "int_value m1 = int_value (control r)"
    "control r \<in> set (members Control_body) \<Longrightarrow> m1 = control r"
    unfolding Control_def by blast
  from enum_field_defined [OF c(2) k(2), of "''Color''"]
  obtain m2 where m2: "bind (py_int (decimal (int_value (color r)))) Color = Inr m2"
    "int_value m2 = int_value (color r)"
    "color r \<in> set (members Color_body) \<Longrightarrow> m2 = color r"
    unfolding Color_def by blast
  from enum_field_defined [OF c(3) k(3), of "''Hat''"]
  obtain m10 where m10: "bind (py_int (decimal (int_value (hat r)))) Hat = Inr m10"
    "int_value m10 = int_value (hat r)"
    "hat r \<in> set (members Hat_body) \<Longrightarrow> m10 = hat r"
    unfolding Hat_def by blast
  from enum_field_defined [OF c(4) k(4), of "''Skin''"]
  obtain m15 where m15: "bind (py_int (decimal (int_value (skin r)))) Skin = Inr m15"
    "int_value m15 = int_value (skin r)"
    "skin r \<in> set (members Skin_body) \<Longrightarrow> m15 = skin r"
    unfolding Skin_def by blast
  from enum_field_defined [OF c(5) k(5), of "''Pet''"]
  obtain m16 where m16: "bind (py_int (decimal (int_value (pet r)))) Pet = Inr m16"
    "int_value m16 = int_value (pet r)"
    "pet r \<in> set (members Pet_body) \<Longrightarrow> m16 = pet r"
    unfolding Pet_def by blast
  from enum_field_defined [OF c(6) k(6), of "''Language''"]
  obtain m18 where m18: "bind (py_int (decimal (int_value (language r)))) Language = Inr m18"
    "int_value m18 = int_value (language r)"
    "language r \<in> set (members Language_body) \<Longrightarrow> m18 = language r"
    unfolding Language_def by blast
  define ts where "ts =
    [name r, decimal (int_value (control r)), decimal (int_value (color r)),
     decimal (unknown3 r), str_bool (unknown4 r), str_bool (unknown5 r),
     str_bool (unknown6 r), decimal (unknown7 r), str_bool (unknown8 r),
     str_bool (unknown9 r), decimal (int_value (hat r)), decimal (sfx r), decimal (music r),
     decimal (unknown13 r), decimal (unknown14 r), decimal (int_value (skin r)),
     decimal (int_value (pet r)), str_bool (censor_chat r), decimal (int_value (language r)),
     str_bool (vsync r), decimal (unknown20 r), decimal (unknown21 r)]"
  have "map_str (iter r) = Inr ts"
    using w k u by (simp add: ts_def iter_def str_Num str_int_decimal)
  then have enc: "PlayerPrefs_str r = Inr (str_join CHR '','' ts)"
    by (simp add: PlayerPrefs_str_def)
  have "ts \<noteq> []" and "\<forall>x \<in> set ts. CHR '','' \<notin> set x"
    by (simp_all add: ts_def decimal_no_comma str_bool_no_comma assms(3))
  then have split: "str_split CHR '','' (str_join CHR '','' ts) = ts"
    by (rule str_split_join)
  let ?r' = "r\<lparr>control := m1, color := m2, hat := m10, skin := m15, pet := m16,
    language := m18\<rparr>"
  have "from_list ts = Inr ?r'"
    unfolding from_list_Inr_iff using d w
    by (simp add: ts_def m1(1) m2(1) m10(1) m15(1) m16(1) m18(1) py_int_decimal
        BOOL_str_bool U8_decimal)
  then have "bind (PlayerPrefs_str r) from_string = Inr ?r'"
    by (simp add: enc from_string_def split)
  moreover have "PlayerPrefs_eq ?r' r"
    by (simp add: PlayerPrefs_eq_def m1(2) m2(2) m10(2) m15(2) m16(2) m18(2))
  moreover have "?r' = r" if "valid r"
    using that m1(3) m2(3) m10(3) m15(3) m16(3) m18(3) by (simp add: valid_def)
  ultimately show ?thesis by blast
qed

theorem roundtrip_witness:
  "(let r = \<lparr>name = ''Bob'', control = Member ''MOUSE_AND_KEYBOARD'' 1, color = Member ''GREEN'' 2,
        unknown3 = 0, unknown4 = True, unknown5 = False, unknown6 = True, unknown7 = 0,
        unknown8 = False, unknown9 = True, hat = Member ''CROWN'' 30, sfx = 100, music = 100,
        unknown13 = 0, unknown14 = 0, skin = Member ''BLUEY'' 3, pet = Member ''NONE'' 0,
        censor_chat = True, language = Member ''ENGLISH'' 0, vsync = False, unknown20 = 0,
        unknown21 = 0\<rparr>
    in in_domain r \<and> within_digit_limit r \<and> CHR '','' \<notin> set (name r) \<and>
       bind (PlayerPrefs_str r) from_string = Inr r) \<and>
   (let r = \<lparr>name = ''Bob'', control = Plain 1, color = Member ''GREEN'' 2,
        unknown3 = 0, unknown4 = True, unknown5 = False, unknown6 = True, unknown7 = 0,
        unknown8 = False, unknown9 = True, hat = Plain 90, sfx = 100, music = 100,
        unknown13 = 0, unknown14 = 0, skin = Member ''BLUEY'' 3, pet = Member ''NONE'' 0,
        censor_chat = True, language = Member ''ENGLISH'' 0, vsync = False, unknown20 = 0,
        unknown21 = 0\<rparr>
    in in_domain r \<and> within_digit_limit r \<and> CHR '','' \<notin> set (name r) \<and>
       map_sum id (\<lambda>r'. PlayerPrefs_eq r' r) (bind (PlayerPrefs_str r) from_string) =
         Inr True)"
proof -
  let ?r = "\<lparr>name = ''Bob'', control = Member ''MOUSE_AND_KEYBOARD'' 1, color = Member ''GREEN'' 2,
        unknown3 = 0, unknown4 = True, unknown5 = False, unknown6 = True, unknown7 = 0,
        unknown8 = False, unknown9 = True, hat = Member ''CROWN'' 30, sfx = 100, music = 100,
        unknown13 = 0, unknown14 = 0, skin = Member ''BLUEY'' 3, pet = Member ''NONE'' 0,
        censor_chat = True, language = Member ''ENGLISH'' 0, vsync = False, unknown20 = 0,
        unknown21 = 0\<rparr>"
  have d: "in_domain ?r" by code_simp
  have w: "within_digit_limit ?r" by code_simp
  have v: "valid ?r" by code_simp
  have n: "CHR '','' \<notin> set (name ?r)" by simp
  from roundtrip [OF d w n] v have 1: "bind (PlayerPrefs_str ?r) from_string = Inr ?r"
    by blast
  let ?p = "\<lparr>name = ''Bob'', control = Plain 1, color = Member ''GREEN'' 2,
        unknown3 = 0, unknown4 = True, unknown5 = False, unknown6 = True, unknown7 = 0,
        unknown8 = False, unknown9 = True, hat = Plain 90, sfx = 100, music = 100,
        unknown13 = 0, unknown14 = 0, skin = Member ''BLUEY'' 3, pet = Member ''NONE'' 0,
        censor_chat = True, language = Member ''ENGLISH'' 0, vsync = False, unknown20 = 0,
        unknown21 = 0\<rparr>"
  have dp: "in_domain ?p" by code_simp
  have wp: "within_digit_limit ?p" by code_simp
  have np: "CHR '','' \<notin> set (name ?p)" by simp
  from roundtrip [OF dp wp np]
  have 2: "map_sum id (\<lambda>r'. PlayerPrefs_eq r' ?p) (bind (PlayerPrefs_str ?p) from_string) =
      Inr True"
    by auto
  from d w n 1 dp wp np 2 show ?thesis unfolding Let_def by (intro conjI)
qed

text \<open>
  The claim as stated fails: a record that differs from the sample only in \<open>unknown3\<close>,
  which is \<open>10 ^ 4300\<close> (4301 digits), has every field in its declared domain and a name
  without comma, but encoding it raises the \<^verbatim>\<open>ValueError\<close> of \<^verbatim>\<open>str\<close> for an integer over
  the limit, so that there is no string to decode.
\<close>

theorem roundtrip_counterexample:
  "int_max_str_digits = 4300 \<and>
   in_domain 
     \<lparr>name = ''Bob'', control = Member ''MOUSE_AND_KEYBOARD'' 1, color = Member ''GREEN'' 2,
        unknown3 = 10 ^ int_max_str_digits, unknown4 = True, unknown5 = False, unknown6 = True, unknown7 = 0,
        unknown8 = False, unknown9 = True, hat = Member ''CROWN'' 30, sfx = 100, music = 100,
        unknown13 = 0, unknown14 = 0, skin = Member ''BLUEY'' 3, pet = Member ''NONE'' 0,
        censor_chat = True, language = Member ''ENGLISH'' 0, vsync = False, unknown20 = 0,
        unknown21 = 0\<rparr> \<and>
   CHR '','' \<notin> set (name 
     \<lparr>name = ''Bob'', control = Member ''MOUSE_AND_KEYBOARD'' 1, color = Member ''GREEN'' 2,
        unknown3 = 10 ^ int_max_str_digits, unknown4 = True, unknown5 = False, unknown6 = True, unknown7 = 0,
        unknown8 = False, unknown9 = True, hat = Member ''CROWN'' 30, sfx = 100, music = 100,
        unknown13 = 0, unknown14 = 0, skin = Member ''BLUEY'' 3, pet = Member ''NONE'' 0,
        censor_chat = True, language = Member ''ENGLISH'' 0, vsync = False, unknown20 = 0,
        unknown21 = 0\<rparr>) \<and>
   PlayerPrefs_str 
     \<lparr>name = ''Bob'', control = Member ''MOUSE_AND_KEYBOARD'' 1, color = Member ''GREEN'' 2,
        unknown3 = 10 ^ int_max_str_digits, unknown4 = True, unknown5 = False, unknown6 = True, unknown7 = 0,
        unknown8 = False, unknown9 = True, hat = Member ''CROWN'' 30, sfx = 100, music = 100,
        unknown13 = 0, unknown14 = 0, skin = Member ''BLUEY'' 3, pet = Member ''NONE'' 0,
        censor_chat = True, language = Member ''ENGLISH'' 0, vsync = False, unknown20 = 0,
        unknown21 = 0\<rparr> = Inl (ValueError DigitLimit) \<and>
   bind (PlayerPrefs_str 
     \<lparr>name = ''Bob'', control = Member ''MOUSE_AND_KEYBOARD'' 1, color = Member ''GREEN'' 2,
        unknown3 = 10 ^ int_max_str_digits, unknown4 = True, unknown5 = False, unknown6 = True, unknown7 = 0,
        unknown8 = False, unknown9 = True, hat = Member ''CROWN'' 30, sfx = 100, music = 100,
        unknown13 = 0, unknown14 = 0, skin = Member ''BLUEY'' 3, pet = Member ''NONE'' 0,
        censor_chat = True, language = Member ''ENGLISH'' 0, vsync = False, unknown20 = 0,
        unknown21 = 0\<rparr>) from_string = Inl (ValueError DigitLimit)"
proof -
  let ?r = "
     \<lparr>name = ''Bob'', control = Member ''MOUSE_AND_KEYBOARD'' 1, color = Member ''GREEN'' 2,
        unknown3 = 10 ^ int_max_str_digits, unknown4 = True, unknown5 = False, unknown6 = True, unknown7 = 0,
        unknown8 = False, unknown9 = True, hat = Member ''CROWN'' 30, sfx = 100, music = 100,
        unknown13 = 0, unknown14 = 0, skin = Member ''BLUEY'' 3, pet = Member ''NONE'' 0,
        censor_chat = True, language = Member ''ENGLISH'' 0, vsync = False, unknown20 = 0,
        unknown21 = 0\<rparr>"
  have d: "in_domain ?r"
    by (simp add: in_domain_def Control_body_def Color_body_def Hat_body_def Skin_body_def
        Pet_body_def Language_body_def)
  have s1: "str_int 1 = Inr ''1''" by code_simp
  have s2: "str_int 2 = Inr ''2''" by code_simp
  have big: "str_int (10 ^ int_max_str_digits) = Inl (ValueError DigitLimit)"
    by (rule str_int_over_limit) simp
  have e: "PlayerPrefs_str ?r = Inl (ValueError DigitLimit)"
    by (simp add: PlayerPrefs_str_def iter_def s1 s2 big)
  then have "bind (PlayerPrefs_str ?r) from_string = Inl (ValueError DigitLimit)"
    by (simp only: bind_Inl)
  moreover have "int_max_str_digits = 4300" by (rule int_max_str_digits_def)
  moreover have "CHR '','' \<notin> set (name ?r)" by simp
  ultimately show ?thesis using d e by (intro conjI)
qed

text \<open>
  Claim C2 (direct construction), as amended. Constructing a record directly from 22 values
  checks nothing: it succeeds for every choice of values and stores them unchanged. The checks
  of the enumeration fields and of \<open>sfx\<close> and \<open>music\<close> are made by the enumeration classes
  and \<^verbatim>\<open>U8\<close>, which decoding calls on the tokens, so that every record decoding returns is
  valid.
\<close>

theorem construction_stores_arguments:
  "PlayerPrefs_init a0 a1 a2 a3 a4 a5 a6 a7 a8 a9 a10 a11 a12 a13 a14 a15 a16 a17 a18 a19 a20 a21 =
     Inr \<lparr>name = a0, control = a1, color = a2, unknown3 = a3, unknown4 = a4, unknown5 = a5,
          unknown6 = a6, unknown7 = a7, unknown8 = a8, unknown9 = a9, hat = a10, sfx = a11,
          music = a12, unknown13 = a13, unknown14 = a14, skin = a15, pet = a16,
          censor_chat = a17, language = a18, vsync = a19, unknown20 = a20, unknown21 = a21\<rparr> \<and>
   (\<forall>s r. from_string s = Inr r \<longrightarrow> valid r)"
  by (simp add: PlayerPrefs_init_def from_string_def from_list_valid)

theorem construction_stores_arguments_witness:
  "(let s = ''Bob,1,2,0,True,False,True,0,False,True,30,100,100,0,0,3,0,True,0,False,0,0''
    in \<not> isl (from_string s) \<and> map_sum id valid (from_string s) = Inr True)"
proof -
  let ?s = "''Bob,1,2,0,True,False,True,0,False,True,30,100,100,0,0,3,0,True,0,False,0,0''"
  have ok: "\<not> isl (from_string ?s)" by code_simp
  then obtain r where r: "from_string ?s = Inr r" by (cases "from_string ?s") auto
  from construction_stores_arguments [THEN conjunct2, rule_format, OF r] have "valid r" .
  with r have "map_sum id valid (from_string ?s) = Inr True" by simp
  with ok show ?thesis unfolding Let_def by (intro conjI)
qed

text \<open>
  The claim as stated fails: construction with the undefined control code 7 and with
  \<open>sfx\<close> 256 succeeds, while \<^verbatim>\<open>Control(7)\<close>, \<^verbatim>\<open>U8('256')\<close> and the decoding of the
  corresponding line raise.
\<close>

theorem construction_counterexample:
  "PlayerPrefs_init ''Bob'' (Plain 7) (Member ''GREEN'' 2) 0 True False True 0 False True
     (Member ''CROWN'' 30) 256 100 0 0 (Member ''BLUEY'' 3) (Member ''NONE'' 0) True
     (Member ''ENGLISH'' 0) False 0 0 =
     Inr \<lparr>name = ''Bob'', control = Plain 7, color = Member ''GREEN'' 2,
        unknown3 = 0, unknown4 = True, unknown5 = False, unknown6 = True, unknown7 = 0,
        unknown8 = False, unknown9 = True, hat = Member ''CROWN'' 30, sfx = 256, music = 100,
        unknown13 = 0, unknown14 = 0, skin = Member ''BLUEY'' 3, pet = Member ''NONE'' 0,
        censor_chat = True, language = Member ''ENGLISH'' 0, vsync = False, unknown20 = 0,
        unknown21 = 0\<rparr> \<and>
   Control 7 = Inl (ValueError (NotMember 7 ''Control'')) \<and>
   U8 ''256'' = Inl (ValueError OutOfRange) \<and>
   from_string ''Bob,7,2,0,True,False,True,0,False,True,30,256,100,0,0,3,0,True,0,False,0,0'' =
     Inl (ValueError (NotMember 7 ''Control'')) \<and>
   \<not> in_domain \<lparr>name = ''Bob'', control = Plain 7, color = Member ''GREEN'' 2,
        unknown3 = 0, unknown4 = True, unknown5 = False, unknown6 = True, unknown7 = 0,
        unknown8 = False, unknown9 = True, hat = Member ''CROWN'' 30, sfx = 256, music = 100,
        unknown13 = 0, unknown14 = 0, skin = Member ''BLUEY'' 3, pet = Member ''NONE'' 0,
        censor_chat = True, language = Member ''ENGLISH'' 0, vsync = False, unknown20 = 0,
        unknown21 = 0\<rparr>"
  by code_simp

text \<open>
  Claim C3 (boolean strictness), as amended. For every input of 22 comma-separated fields in
  which the token at one of the boolean positions 4, 5, 6, 8, 9, 17, 19 is not exactly
  \<open>True\<close> or \<open>False\<close>, decoding fails. The error is either a \<^verbatim>\<open>ValueError\<close>, raised by the conversion of
  another field, or the \<^verbatim>\<open>KeyError\<close> of the lookup of such a token in \<^verbatim>\<open>BOOL\<close>, which is
  not of class \<^verbatim>\<open>ValueError\<close>; it is the \<^verbatim>\<open>KeyError\<close> of that token when the input is
  valid apart from it.
\<close>

theorem boolean_strictness:
  assumes "str_split CHR '','' s = lst" and "length lst = 22"
    and "i \<in> {4, 5, 6, 8, 9, 17, 19}"
    and "lst ! i \<noteq> ''True''" and "lst ! i \<noteq> ''False''"
  shows "\<exists>e. from_string s = Inl e \<and>
           (is_ValueError e \<or>
            (\<exists>j \<in> {4, 5, 6, 8, 9, 17, 19}.
               lst ! j \<noteq> ''True'' \<and> lst ! j \<noteq> ''False'' \<and> e = KeyError (lst ! j))) \<and>
           ((\<exists>r. from_list (lst[i := ''True'']) = Inr r) \<longrightarrow> e = KeyError (lst ! i))"
proof -
  have s: "from_string s = from_list lst"
    by (simp add: from_string_def assms(1))
  have "getitem BOOL (lst ! i) = Inl (KeyError (lst ! i))"
    using assms(4,5) by (rule getitem_BOOL_bad)
  with assms(3) have "from_list lst \<noteq> Inr r" for r
    unfolding from_list_Inr_iff by auto
  then obtain e where e: "from_list lst = Inl e"
    using no_Inr_is_Inl [of "from_list lst"] by blast
  have "is_ValueError e \<or>
          (\<exists>j \<in> {4, 5, 6, 8, 9, 17, 19}.
             lst ! j \<noteq> ''True'' \<and> lst ! j \<noteq> ''False'' \<and> e = KeyError (lst ! j))"
    using from_list_Inl [OF e] by blast
  moreover have "e = KeyError (lst ! i)" if "\<exists>r. from_list (lst[i := ''True'']) = Inr r"
    using that from_list_bool_KeyError [OF _ assms(3,4,5)] e by auto
  ultimately show ?thesis using e s by auto
qed

theorem boolean_strictness_witness:
  "(let s =
          ''Bob,1,2,0,true,False,True,0,False,True,30,100,100,0,0,3,0,True,0,False,0,0'';
       lst = str_split CHR '','' s
    in length lst = 22 \<and> lst ! 4 = ''true'' \<and> from_string s = Inl (KeyError ''true''))"
proof -
  let ?s = "''Bob,1,2,0,true,False,True,0,False,True,30,100,100,0,0,3,0,True,0,False,0,0''"
  let ?lst = "str_split CHR '','' ?s"
  have len: "length ?lst = 22" by code_simp
  have tok: "?lst ! 4 = ''true''" by code_simp
  have ok: "from_list (?lst[4 := ''True'']) =
      Inr \<lparr>name = ''Bob'', control = Member ''MOUSE_AND_KEYBOARD'' 1, color = Member ''GREEN'' 2,
        unknown3 = 0, unknown4 = True, unknown5 = False, unknown6 = True, unknown7 = 0,
        unknown8 = False, unknown9 = True, hat = Member ''CROWN'' 30, sfx = 100, music = 100,
        unknown13 = 0, unknown14 = 0, skin = Member ''BLUEY'' 3, pet = Member ''NONE'' 0,
        censor_chat = True, language = Member ''ENGLISH'' 0, vsync = False, unknown20 = 0,
        unknown21 = 0\<rparr>"
    by code_simp
  from tok have bad: "?lst ! 4 \<noteq> ''True''" "?lst ! 4 \<noteq> ''False''" by simp_all
  from boolean_strictness [OF refl len _ bad] ok tok
  have "from_string ?s = Inl (KeyError ''true'')" by auto
  with len tok show ?thesis unfolding Let_def by (intro conjI)
qed

text \<open>
  The claim as stated fails: with \<open>true\<close>, \<open>1\<close> or \<open> True\<close> at a boolean position of the
  sample line the error is a \<^verbatim>\<open>KeyError\<close>.
\<close>

theorem boolean_error_class_counterexample:
  "from_string ''Bob,1,2,0,true,False,True,0,False,True,30,100,100,0,0,3,0,True,0,False,0,0''
      = Inl (KeyError ''true'') \<and>
   from_string ''Bob,1,2,0,True,False,True,0,False,1,30,100,100,0,0,3,0,True,0,False,0,0''
       = Inl (KeyError ''1'') \<and>
   from_string ''Bob,1,2,0,True,False,True,0,False,True,30,100,100,0,0,3,0, True,0,False,0,0''
       = Inl (KeyError '' True'') \<and>
   \<not> is_ValueError (KeyError ''true'') \<and> \<not> is_ValueError (KeyError ''1'') \<and>
   \<not> is_ValueError (KeyError '' True'')"
  by code_simp

text \<open>
  Claim C4 (field-count guard). Every string that splits at its commas into a number of parts
  other than 22 (21 or 23, for instance) is refused with the wrong-number-of-fields error,
  whatever the parts are; no conversion of a field is attempted.
\<close>

theorem field_count_guard:
  "length (str_split CHR '','' s) \<noteq> 22 \<Longrightarrow> from_string s = Inl (ValueError Fields)"
  by (simp add: from_string_def from_list_wrong_length)

theorem field_count_guard_witness:
  "length (str_split CHR '',''
      ''Bob,1,2,0,True,False,True,0,False,True,30,100,100,0,0,3,0,True,0,False,0'')
      = 21 \<and>
   from_string ''Bob,1,2,0,True,False,True,0,False,True,30,100,100,0,0,3,0,True,0,False,0'' =
     Inl (ValueError Fields) \<and>
   length (str_split CHR '',''
       ''x,y,,0,True,False,True,0,False,True,30,100,100,0,0,3,0,True,0,False,0,0,0'')
       = 23 \<and>
   from_string ''x,y,,0,True,False,True,0,False,True,30,100,100,0,0,3,0,True,0,False,0,0,0'' =
     Inl (ValueError Fields)"
proof -
  let ?s = "''Bob,1,2,0,True,False,True,0,False,True,30,100,100,0,0,3,0,True,0,False,0''"
  let ?t = "''x,y,,0,True,False,True,0,False,True,30,100,100,0,0,3,0,True,0,False,0,0,0''"
  have s: "length (str_split CHR '','' ?s) = 21" by code_simp
  have t: "length (str_split CHR '','' ?t) = 23" by code_simp
  from s have "from_string ?s = Inl (ValueError Fields)"
    by (intro field_count_guard) simp
  moreover from t have "from_string ?t = Inl (ValueError Fields)"
    by (intro field_count_guard) simp
  ultimately show ?thesis using s t by (intro conjI)
qed





text \<open>
  Claim C7 (known-good sample). The sample line decodes to the record with name \<open>Bob\<close>,
  control \<open>MOUSE_AND_KEYBOARD\<close>, color \<open>GREEN\<close>, hat \<open>CROWN\<close>, sfx 100, music 100, skin
  \<open>BLUEY\<close>, pet \<open>NONE\<close>, censor_chat true, language \<open>ENGLISH\<close> and vsync false, and encoding
  that record gives the sample line again.
\<close>

theorem known_good_sample:
  "from_string ''Bob,1,2,0,True,False,True,0,False,True,30,100,100,0,0,3,0,True,0,False,0,0'' =
     Inr \<lparr>name = ''Bob'', control = Member ''MOUSE_AND_KEYBOARD'' 1, color = Member ''GREEN'' 2,
        unknown3 = 0, unknown4 = True, unknown5 = False, unknown6 = True, unknown7 = 0,
        unknown8 = False, unknown9 = True, hat = Member ''CROWN'' 30, sfx = 100, music = 100,
        unknown13 = 0, unknown14 = 0, skin = Member ''BLUEY'' 3, pet = Member ''NONE'' 0,
        censor_chat = True, language = Member ''ENGLISH'' 0, vsync = False, unknown20 = 0,
        unknown21 = 0\<rparr> \<and>
   PlayerPrefs_str \<lparr>name = ''Bob'', control = Member ''MOUSE_AND_KEYBOARD'' 1, color = Member ''GREEN'' 2,
        unknown3 = 0, unknown4 = True, unknown5 = False, unknown6 = True, unknown7 = 0,
        unknown8 = False, unknown9 = True, hat = Member ''CROWN'' 30, sfx = 100, music = 100,
        unknown13 = 0, unknown14 = 0, skin = Member ''BLUEY'' 3, pet = Member ''NONE'' 0,
        censor_chat = True, language = Member ''ENGLISH'' 0, vsync = False, unknown20 = 0,
        unknown21 = 0\<rparr> =
     Inr ''Bob,1,2,0,True,False,True,0,False,True,30,100,100,0,0,3,0,True,0,False,0,0''"
  by code_simp

text \<open>
  Claim C8 (the duplicate hat code). For every input whose hat token is \<open>90\<close> the conversion
  of that token gives the one member named \<open>MINIME\<close>; every record decoded from such an
  input has that member as its hat, and two decodings of the same input agree on it.
\<close>

theorem duplicate_hat_code:
  assumes "str_split CHR '','' s ! 10 = ''90''"
  shows "bind (py_int (str_split CHR '','' s ! 10)) Hat = Inr (Member ''MINIME'' 90) \<and>
         (\<forall>r. from_string s = Inr r \<longrightarrow> hat r = Member ''MINIME'' 90) \<and>
         (\<forall>r r'. from_string s = Inr r \<and> from_string s = Inr r' \<longrightarrow> hat r' = hat r)"
proof -
  have "bind (py_int ''90'') Hat = Inr (Member ''MINIME'' 90)" by code_simp
  then have h: "bind (py_int (str_split CHR '','' s ! 10)) Hat = Inr (Member ''MINIME'' 90)"
    by (simp only: assms)
  have "hat r = Member ''MINIME'' 90" if "from_string s = Inr r" for r
  proof -
    from that have "bind (py_int (str_split CHR '','' s ! 10)) Hat = Inr (hat r)"
      unfolding from_string_def from_list_Inr_iff by simp
    with h show ?thesis by simp
  qed
  with h show ?thesis by auto
qed

theorem duplicate_hat_code_witness:
  "(let s = ''Bob,1,2,0,True,False,True,0,False,True,90,100,100,0,0,3,0,True,0,False,0,0''
    in str_split CHR '','' s ! 10 = ''90'' \<and>
       map_sum id hat (from_string s) = Inr (Member ''MINIME'' 90))"
proof -
  let ?s = "''Bob,1,2,0,True,False,True,0,False,True,90,100,100,0,0,3,0,True,0,False,0,0''"
  have tok: "str_split CHR '','' ?s ! 10 = ''90''" by code_simp
  have "\<not> isl (from_string ?s)" by code_simp
  then obtain r where r: "from_string ?s = Inr r" by (cases "from_string ?s") auto
  with duplicate_hat_code [OF tok] have "hat r = Member ''MINIME'' 90" by blast
  with r have "map_sum id hat (from_string ?s) = Inr (Member ''MINIME'' 90)" by simp
  with tok show ?thesis unfolding Let_def by (intro conjI)
qed

text \<open>
  Claim C9 (alias preservation). The names \<open>MINIME\<close> and \<open>NINJA_MASK\<close> are both names of
  the class \<^verbatim>\<open>Hat\<close>; the lookup of either name succeeds, both give the member with the
  integer code 90, and the lookup of the code 90 succeeds.
\<close>

theorem alias_preservation:
  "map fst (filter (\<lambda>(n, m). int_value m = 90) (member_map Hat_body)) =
     [''MINIME'', ''NINJA_MASK''] \<and>
   enum_getitem Hat_body ''MINIME'' = Inr (Member ''MINIME'' 90) \<and>
   enum_getitem Hat_body ''NINJA_MASK'' = Inr (Member ''MINIME'' 90) \<and>
   map_sum id int_value (enum_getitem Hat_body ''MINIME'') = Inr 90 \<and>
   map_sum id int_value (enum_getitem Hat_body ''NINJA_MASK'') = Inr 90 \<and>
   Hat 90 = Inr (Member ''MINIME'' 90)"
  by code_simp

text \<open>
  Claim C10 (empty input). Splitting the empty string at commas gives one empty part, not
  none, so decoding the empty string fails with the wrong-number-of-fields error and not with
  a conversion error of a field.
\<close>

theorem empty_string:
  "str_split CHR '','' [] = [[]] \<and> from_string [] = Inl (ValueError Fields)"
  by (simp add: from_string_def from_list_def str_split_def)

end
